theory Spec2Isabelle
  imports Complex_Main "HOL-Library.Sublist"
begin

section \<open>Python values\<close>

text \<open>
  A Python \<open>str\<close> is a sequence of Unicode code points, and \<open>len\<close> counts code points.
  It is modelled as a list of natural numbers; lone surrogates (U+D800 .. U+DFFF) are
  legal elements of a \<open>str\<close> (the JSON parser produces them from an escape such as
  \<open>\ud800\<close>). A literal of the source is written \<open>lit ''...''\<close>.
\<close>

type_synonym ustr = "nat list"

definition lit :: "string \<Rightarrow> ustr" where
  "lit s = map of_char s"

text \<open>
  A Python \<open>float\<close>, as far as the program looks at it: it is compared with numbers and
  tested for truth, never computed with.
\<close>

datatype pyfloat = Finite rat | PosInf | NegInf | NaN

text \<open>
  The values that \<open>request.get_json()\<close> and \<open>response.json()\<close> produce: \<open>None\<close>,
  \<open>bool\<close>, \<open>int\<close>, \<open>float\<close>, \<open>str\<close>, \<open>list\<close> and \<open>dict\<close> with \<open>str\<close> keys. A
  dictionary is the list of its items in insertion order; this is also the type of the
  dictionaries that the program builds and hands to \<open>jsonify\<close>.
\<close>

datatype json =
    JNull
  | JBool bool
  | JInt int
  | JFloat pyfloat
  | JStr ustr
  | JArr "json list"
  | JObj "(ustr \<times> json) list"

text \<open>The numeric value of \<open>bool\<close>, \<open>int\<close> and finite \<open>float\<close>, for \<open>==\<close> across them.\<close>

datatype numval = Num rat | NumPosInf | NumNegInf | NumNaN | NotNum

fun numval_of :: "json \<Rightarrow> numval" where
  "numval_of (JBool b) = Num (if b then 1 else 0)"
| "numval_of (JInt i) = Num (of_int i)"
| "numval_of (JFloat (Finite r)) = Num r"
| "numval_of (JFloat PosInf) = NumPosInf"
| "numval_of (JFloat NegInf) = NumNegInf"
| "numval_of (JFloat NaN) = NumNaN"
| "numval_of _ = NotNum"

fun num_eq :: "numval \<Rightarrow> numval \<Rightarrow> bool" where
  "num_eq (Num a) (Num b) = (a = b)"
| "num_eq NumPosInf NumPosInf = True"
| "num_eq NumNegInf NumNegInf = True"
| "num_eq _ _ = False"

text \<open>
  Python's \<open>==\<close> on these values. Numbers compare by value across \<open>bool\<close>, \<open>int\<close> and
  \<open>float\<close> (\<open>True == 1\<close>, \<open>200 == 200.0\<close>, \<open>nan != nan\<close>); lists compare element by
  element; dictionaries compare as mappings, whatever the order of their items; values of
  different kinds are unequal.

  Inside a list or a dictionary CPython compares two elements by identity first and by
  \<open>==\<close> second. Identity adds something for one value only: the JSON parser returns the
  same object for every \<open>NaN\<close>, so two \<open>NaN\<close> elements count as equal
  (\<open>[nan] == [nan]\<close> for parsed lists), though \<open>nan == nan\<close> itself is false.
\<close>

definition same_nan :: "json \<Rightarrow> json \<Rightarrow> bool" where
  "same_nan a b \<longleftrightarrow> a = JFloat NaN \<and> b = JFloat NaN"

fun lookup :: "(ustr \<times> json) list \<Rightarrow> ustr \<Rightarrow> json option" where
  "lookup [] k = None"
| "lookup ((k', v) # kvs) k = (if k' = k then Some v else lookup kvs k)"

lemma lookup_size [termination_simp]:
  "lookup kvs k = Some v \<Longrightarrow> size v < Suc (size_list (size_prod (\<lambda>_. 0) size) kvs)"
  by (induction kvs) (auto split: if_splits)

function py_eq :: "json \<Rightarrow> json \<Rightarrow> bool"
  and py_eq_list :: "json list \<Rightarrow> json list \<Rightarrow> bool"
  and py_eq_items :: "(ustr \<times> json) list \<Rightarrow> (ustr \<times> json) list \<Rightarrow> bool" where
  "py_eq a b =
     (case (a, b) of
        (JNull, JNull) \<Rightarrow> True
      | (JStr s, JStr t) \<Rightarrow> s = t
      | (JArr xs, JArr ys) \<Rightarrow> py_eq_list xs ys
      | (JObj xs, JObj ys) \<Rightarrow> length xs = length ys \<and> py_eq_items xs ys
      | _ \<Rightarrow> num_eq (numval_of a) (numval_of b))"
| "py_eq_list [] ys = (ys = [])"
| "py_eq_list (x # xs) ys =
     (case ys of
        [] \<Rightarrow> False
      | y # ys' \<Rightarrow> (same_nan x y \<or> py_eq x y) \<and> py_eq_list xs ys')"
| "py_eq_items [] ys = True"
| "py_eq_items ((k, v) # xs) ys =
     (case lookup ys k of
        None \<Rightarrow> False
      | Some w \<Rightarrow> (same_nan v w \<or> py_eq v w) \<and> py_eq_items xs ys)"
  by pat_completeness auto
termination
  by (relation "measure (\<lambda>x. case x of
         Inl (a, b) \<Rightarrow> size a
       | Inr (Inl (xs, ys)) \<Rightarrow> size_list size xs
       | Inr (Inr (xs, ys)) \<Rightarrow> size_list (size_prod (\<lambda>_. 0) size) xs)")
     auto

declare py_eq.simps(1) [simp del]

lemma py_eq_JStr [simp]: "py_eq (JStr s) (JStr t) \<longleftrightarrow> s = t"
  by (simp add: py_eq.simps(1))

text \<open>Truth value of a Python value, as \<open>not data\<close> and \<open>if not text\<close> test it.\<close>

fun truthy :: "json \<Rightarrow> bool" where
  "truthy JNull = False"
| "truthy (JBool b) = b"
| "truthy (JInt i) = (i \<noteq> 0)"
| "truthy (JFloat f) = (f \<noteq> Finite 0)"
| "truthy (JStr s) = (s \<noteq> [])"
| "truthy (JArr xs) = (xs \<noteq> [])"
| "truthy (JObj kvs) = (kvs \<noteq> [])"

text \<open>The name of a value's type, as it appears in the interpreter's error messages.\<close>

fun type_name :: "json \<Rightarrow> ustr" where
  "type_name JNull = lit ''NoneType''"
| "type_name (JBool _) = lit ''bool''"
| "type_name (JInt _) = lit ''int''"
| "type_name (JFloat _) = lit ''float''"
| "type_name (JStr _) = lit ''str''"
| "type_name (JArr _) = lit ''list''"
| "type_name (JObj _) = lit ''dict''"

section \<open>Exceptions\<close>

text \<open>
  An exception is what the two \<open>except\<close> clauses can tell about it: whether it is an
  instance of \<open>requests.RequestException\<close>, and the text \<open>str(e)\<close>. Only instances of
  \<open>Exception\<close> are modelled.
\<close>

datatype exn = RequestException ustr | OtherException ustr

fun str_exn :: "exn \<Rightarrow> ustr" where
  "str_exn (RequestException m) = m"
| "str_exn (OtherException m) = m"

type_synonym 'a result = "exn + 'a"

definition raise :: "exn \<Rightarrow> 'a result" where
  "raise e = Inl e"

definition bind :: "'a result \<Rightarrow> ('a \<Rightarrow> 'b result) \<Rightarrow> 'b result" where
  "bind r f = (case r of Inl e \<Rightarrow> Inl e | Inr v \<Rightarrow> f v)"

text \<open>\<open>obj.attr\<close> where the object has no such attribute.\<close>

definition AttributeError :: "json \<Rightarrow> string \<Rightarrow> exn" where
  "AttributeError obj attr =
     OtherException (lit [CHR 0x27] @ type_name obj @ lit ''' object has no attribute ''
                     @ lit [CHR 0x27] @ lit attr @ lit [CHR 0x27])"

text \<open>\<open>str(KeyError(k))\<close> is the \<open>repr\<close> of the key; the keys here need no escaping.\<close>

definition KeyError :: "string \<Rightarrow> exn" where
  "KeyError k = OtherException (lit [CHR 0x27] @ lit k @ lit [CHR 0x27])"

definition TypeError :: "ustr \<Rightarrow> exn" where
  "TypeError m = OtherException m"


section \<open>Strings\<close>

text \<open>
  \<open>str.isspace\<close> of one code point: the characters that \<open>str.strip()\<close> without an
  argument removes (the Unicode white space of CPython 3).
\<close>

definition isspace :: "nat \<Rightarrow> bool" where
  "isspace c \<longleftrightarrow>
     (0x09 \<le> c \<and> c \<le> 0x0D) \<or> (0x1C \<le> c \<and> c \<le> 0x20) \<or> c = 0x85 \<or> c = 0xA0
     \<or> c = 0x1680 \<or> (0x2000 \<le> c \<and> c \<le> 0x200A) \<or> c = 0x2028 \<or> c = 0x2029
     \<or> c = 0x202F \<or> c = 0x205F \<or> c = 0x3000"

definition strip :: "ustr \<Rightarrow> ustr" where
  "strip s = rev (dropWhile isspace (rev (dropWhile isspace s)))"

text \<open>\<open>sub in s\<close> on strings: \<open>sub\<close> occurs in \<open>s\<close> as a contiguous run.\<close>

fun str_contains :: "ustr \<Rightarrow> ustr \<Rightarrow> bool" where
  "str_contains [] sub = (sub = [])"
| "str_contains (c # s) sub = (prefix sub (c # s) \<or> str_contains s sub)"

text \<open>Decimal digits of a natural number, and \<open>str\<close> of an \<open>int\<close>.\<close>

function str_nat :: "nat \<Rightarrow> ustr" where
  "str_nat n = (if n < 10 then [48 + n] else str_nat (n div 10) @ [48 + n mod 10])"
  by pat_completeness auto
termination
  by (relation "measure id") auto

declare str_nat.simps [simp del]

definition str_int :: "int \<Rightarrow> ustr" where
  "str_int i = (if i < 0 then lit ''-'' @ str_nat (nat (- i)) else str_nat (nat i))"

text \<open>One hexadecimal digit, in upper case (\<open>%02X\<close>) and in lower case (\<open>%04x\<close>).\<close>

definition hex_upper :: "nat \<Rightarrow> nat" where
  "hex_upper d = (if d < 10 then 48 + d else 55 + d)"

definition hex_lower :: "nat \<Rightarrow> nat" where
  "hex_lower d = (if d < 10 then 48 + d else 87 + d)"

section \<open>UTF-8 and \<open>urllib.parse.quote\<close>\<close>

definition is_surrogate :: "nat \<Rightarrow> bool" where
  "is_surrogate c \<longleftrightarrow> 0xD800 \<le> c \<and> c \<le> 0xDFFF"

text \<open>The bytes of one code point that is not a surrogate.\<close>

definition utf8_char :: "nat \<Rightarrow> nat list" where
  "utf8_char c =
     (if c < 0x80 then [c]
      else if c < 0x800 then [0xC0 + c div 64, 0x80 + c mod 64]
      else if c < 0x10000 then [0xE0 + c div 4096, 0x80 + c div 64 mod 64, 0x80 + c mod 64]
      else [0xF0 + c div 262144, 0x80 + c div 4096 mod 64, 0x80 + c div 64 mod 64,
            0x80 + c mod 64])"

text \<open>
  The message of the \<open>UnicodeEncodeError\<close> that the strict codec raises for the run of
  surrogates at positions \<open>i\<close> up to \<open>j\<close> (exclusive) of the string; \<open>c\<close> is the first of
  them.
\<close>

definition UnicodeEncodeError :: "nat \<Rightarrow> nat \<Rightarrow> nat \<Rightarrow> exn" where
  "UnicodeEncodeError c i j =
     OtherException
       (lit [CHR 0x27] @ lit ''utf-8'' @ lit [CHR 0x27] @ lit '' codec can''
        @ lit [CHR 0x27] @ lit ''t encode ''
        @ (if j = Suc i
           then lit ''character '' @ lit [CHR 0x27, CHR 0x5C] @ lit ''u''
                @ map hex_lower [c div 4096 mod 16, c div 256 mod 16, c div 16 mod 16, c mod 16]
                @ lit [CHR 0x27] @ lit '' in position '' @ str_nat i
           else lit ''characters in position '' @ str_nat i @ lit ''-'' @ str_nat (j - 1))
        @ lit '': surrogates not allowed'')"

text \<open>
  \<open>s.encode('utf-8', 'strict')\<close>, reading \<open>s\<close> from position \<open>i\<close>: the bytes, or the
  error at the first surrogate.
\<close>

fun utf8_encode_from :: "nat \<Rightarrow> ustr \<Rightarrow> nat list result" where
  "utf8_encode_from i [] = Inr []"
| "utf8_encode_from i (c # s) =
     (if is_surrogate c
      then raise (UnicodeEncodeError c i (Suc i + length (takeWhile is_surrogate s)))
      else bind (utf8_encode_from (Suc i) s) (\<lambda>bs. Inr (utf8_char c @ bs)))"

definition utf8_encode :: "ustr \<Rightarrow> nat list result" where
  "utf8_encode s = utf8_encode_from 0 s"

text \<open>
  The bytes that \<open>quote\<close> leaves as they are: the letters, the digits, \<open>_.-~\<close>, and the
  default \<open>safe='/'\<close>.
\<close>

definition is_safe :: "nat \<Rightarrow> bool" where
  "is_safe b \<longleftrightarrow>
     (0x41 \<le> b \<and> b \<le> 0x5A) \<or> (0x61 \<le> b \<and> b \<le> 0x7A) \<or> (0x30 \<le> b \<and> b \<le> 0x39)
     \<or> b = 0x5F \<or> b = 0x2E \<or> b = 0x2D \<or> b = 0x7E \<or> b = 0x2F"

definition quote_byte :: "nat \<Rightarrow> ustr" where
  "quote_byte b = (if is_safe b then [b] else [0x25, hex_upper (b div 16), hex_upper (b mod 16)])"

definition quote_from_bytes :: "nat list \<Rightarrow> ustr" where
  "quote_from_bytes bs = concat (map quote_byte bs)"

text \<open>\<open>quote(string)\<close> with the defaults \<open>safe='/'\<close>, \<open>encoding='utf-8'\<close>, \<open>errors='strict'\<close>.\<close>

definition quote :: "ustr \<Rightarrow> ustr result" where
  "quote string =
     (if string = [] then Inr string
      else bind (utf8_encode string) (\<lambda>bs. Inr (quote_from_bytes bs)))"

subsection \<open>Decoding, as the receiver of the URL does it\<close>








section \<open>The language catalog\<close>

text \<open>\<open>TranslationService.get_supported_languages\<close>: the dictionary literal, in its order.\<close>

definition get_supported_languages :: "(string \<times> string) list" where
  "get_supported_languages =
     [(''auto'', ''Auto-detect''),
      (''en'', ''English''),
      (''hi'', ''Hindi''),
      (''bn'', ''Bengali''),
      (''gu'', ''Gujarati''),
      (''ml'', ''Malayalam''),
      (''mr'', ''Marathi''),
      (''ta'', ''Tamil''),
      (''te'', ''Telugu''),
      (''es'', ''Spanish''),
      (''fr'', ''French''),
      (''de'', ''German''),
      (''it'', ''Italian''),
      (''pt'', ''Portuguese''),
      (''ru'', ''Russian''),
      (''ja'', ''Japanese''),
      (''ko'', ''Korean''),
      (''zh'', ''Chinese (Simplified)''),
      (''zh-tw'', ''Chinese (Traditional)''),
      (''ar'', ''Arabic''),
      (''th'', ''Thai''),
      (''vi'', ''Vietnamese''),
      (''nl'', ''Dutch''),
      (''sv'', ''Swedish''),
      (''no'', ''Norwegian''),
      (''da'', ''Danish''),
      (''fi'', ''Finnish''),
      (''pl'', ''Polish''),
      (''el'', ''Greek''),
      (''ro'', ''Romanian'')]"

section \<open>HTTP responses of the application\<close>

record response =
  status :: nat
  body :: json

text \<open>\<open>jsonify(d)\<close>: the dictionary as a JSON body, with the default status 200.\<close>

definition jsonify :: "json \<Rightarrow> response" where
  "jsonify d = \<lparr>status = 200, body = d\<rparr>"

text \<open>A dictionary literal with \<open>str\<close> keys and values.\<close>

definition dict_of :: "(string \<times> string) list \<Rightarrow> json" where
  "dict_of kvs = JObj (map (\<lambda>(k, v). (lit k, JStr (lit v))) kvs)"

text \<open>The route \<open>GET /languages\<close>.\<close>

definition get_languages :: response where
  "get_languages = jsonify (dict_of get_supported_languages)"

text \<open>The keys of a JSON object.\<close>

fun keys :: "json \<Rightarrow> ustr list" where
  "keys (JObj kvs) = map fst kvs"
| "keys _ = []"

text \<open>The dictionary \<open>{'success': False, 'error': err}\<close>.\<close>

definition failure :: "json \<Rightarrow> json" where
  "failure err = JObj [(lit ''success'', JBool False), (lit ''error'', err)]"

text \<open>The error handlers for 404 and 500: \<open>return jsonify(...), 404\<close>.\<close>

definition not_found :: response where
  "not_found = (jsonify (failure (JStr (lit ''Endpoint not found''))))\<lparr>status := 404\<rparr>"

definition internal_error :: response where
  "internal_error = (jsonify (failure (JStr (lit ''Internal server error''))))\<lparr>status := 500\<rparr>"

section \<open>The world outside\<close>

text \<open>
  What the program sees of a \<open>requests.Response\<close>: the status code, the reason phrase and
  the final URL (they make the message of \<open>raise_for_status\<close>), and what
  \<open>response.json()\<close> does: it returns the parsed body, or raises (for a body that is not
  JSON, \<open>JSONDecodeError\<close>).
\<close>

record http_response =
  status_code :: nat
  reason :: ustr
  url :: ustr
  json_result :: "json result"

text \<open>
  The environment of a run. \<open>provider u\<close> is what \<open>requests.get(u, timeout=10)\<close> does:
  it returns a response, or raises (a timeout, a failed name lookup, a refused connection
  are instances of \<open>RequestException\<close>). \<open>py_repr\<close> is the text that an f-string puts
  for a \<open>float\<close>, a \<open>list\<close> or a \<open>dict\<close>.
\<close>

record env =
  provider :: "ustr \<Rightarrow> http_response result"
  py_repr :: "json \<Rightarrow> ustr"

text \<open>
  A computation may raise, and it extends the log of the URLs requested from the
  provider, in the order of the requests.
\<close>

type_synonym 'a io = "ustr list \<Rightarrow> 'a result \<times> ustr list"

definition return :: "'a \<Rightarrow> 'a io" where
  "return v = (\<lambda>calls. (Inr v, calls))"

definition lift :: "'a result \<Rightarrow> 'a io" where
  "lift r = (\<lambda>calls. (r, calls))"

definition io_bind :: "'a io \<Rightarrow> ('a \<Rightarrow> 'b io) \<Rightarrow> 'b io" where
  "io_bind m f =
     (\<lambda>calls. case m calls of
        (Inl e, calls') \<Rightarrow> (Inl e, calls')
      | (Inr v, calls') \<Rightarrow> f v calls')"

text \<open>\<open>try: m except Exception as e: h e\<close>\<close>

definition try_except :: "'a io \<Rightarrow> (exn \<Rightarrow> 'a io) \<Rightarrow> 'a io" where
  "try_except m h =
     (\<lambda>calls. case m calls of
        (Inl e, calls') \<Rightarrow> h e calls'
      | (Inr v, calls') \<Rightarrow> (Inr v, calls'))"

definition requests_get :: "env \<Rightarrow> ustr \<Rightarrow> http_response io" where
  "requests_get env u = (\<lambda>calls. (provider env u, calls @ [u]))"

text \<open>
  \<open>Response.raise_for_status()\<close> of the requests library: an \<open>HTTPError\<close>, which is a
  \<open>RequestException\<close>, for a status code from 400 to 599, and nothing otherwise.
\<close>

definition raise_for_status :: "http_response \<Rightarrow> unit result" where
  "raise_for_status r =
     (if 400 \<le> status_code r \<and> status_code r < 500
      then raise (RequestException (str_nat (status_code r) @ lit '' Client Error: '' @ reason r
                                    @ lit '' for url: '' @ url r))
      else if 500 \<le> status_code r \<and> status_code r < 600
      then raise (RequestException (str_nat (status_code r) @ lit '' Server Error: '' @ reason r
                                    @ lit '' for url: '' @ url r))
      else Inr ())"

section \<open>Operations on values\<close>

text \<open>\<open>data.get(k, dflt)\<close>: only a \<open>dict\<close> has the method.\<close>

fun dict_get :: "json \<Rightarrow> string \<Rightarrow> json \<Rightarrow> json result" where
  "dict_get (JObj kvs) k dflt =
     Inr (case lookup kvs (lit k) of None \<Rightarrow> dflt | Some v \<Rightarrow> v)"
| "dict_get obj k dflt = raise (AttributeError obj ''get'')"

text \<open>\<open>obj[k]\<close> with a \<open>str\<close> key.\<close>

fun subscript :: "json \<Rightarrow> string \<Rightarrow> json result" where
  "subscript (JObj kvs) k =
     (case lookup kvs (lit k) of None \<Rightarrow> raise (KeyError k) | Some v \<Rightarrow> Inr v)"
| "subscript (JArr xs) k =
     raise (TypeError (lit ''list indices must be integers or slices, not str''))"
| "subscript (JStr s) k =
     raise (TypeError (lit ''string indices must be integers, not '' @ lit [CHR 0x27]
                       @ lit ''str'' @ lit [CHR 0x27]))"
| "subscript obj k =
     raise (TypeError (lit [CHR 0x27] @ type_name obj @ lit [CHR 0x27]
                       @ lit '' object is not subscriptable''))"

text \<open>
  \<open>k in obj\<close> with a \<open>str\<close> \<open>k\<close>: a key of a dictionary, an element of a list, a part
  of a string.
\<close>

fun py_contains :: "json \<Rightarrow> ustr \<Rightarrow> bool result" where
  "py_contains (JObj kvs) k = Inr (lookup kvs k \<noteq> None)"
| "py_contains (JArr xs) k = Inr (list_ex (\<lambda>x. py_eq x (JStr k)) xs)"
| "py_contains (JStr s) k = Inr (str_contains s k)"
| "py_contains obj k =
     raise (TypeError (lit ''argument of type '' @ lit [CHR 0x27] @ type_name obj
                       @ lit [CHR 0x27] @ lit '' is not iterable''))"

text \<open>\<open>obj.strip()\<close>\<close>

fun method_strip :: "json \<Rightarrow> ustr result" where
  "method_strip (JStr s) = Inr (strip s)"
| "method_strip obj = raise (AttributeError obj ''strip'')"

text \<open>What an f-string puts for \<open>{v}\<close>.\<close>

fun format_value :: "env \<Rightarrow> json \<Rightarrow> ustr" where
  "format_value env (JStr s) = s"
| "format_value env JNull = lit ''None''"
| "format_value env (JBool b) = (if b then lit ''True'' else lit ''False'')"
| "format_value env (JInt i) = str_int i"
| "format_value env v = py_repr env v"

section \<open>\<open>TranslationService.translate_text\<close>\<close>

text \<open>\<open>self.base_url\<close>, the dictionary of a success, and the f-string of the URL.\<close>

definition base_url :: ustr where
  "base_url = lit ''https://api.mymemory.translated.net/get''"

definition success :: "json \<Rightarrow> json \<Rightarrow> json \<Rightarrow> json" where
  "success translated source_lang target_lang =
     JObj [(lit ''success'', JBool True),
           (lit ''translated_text'', translated),
           (lit ''source_lang'', source_lang),
           (lit ''target_lang'', target_lang)]"

definition make_url :: "env \<Rightarrow> ustr \<Rightarrow> json \<Rightarrow> json \<Rightarrow> ustr" where
  "make_url env encoded_text source_lang target_lang =
     base_url @ lit ''?q='' @ encoded_text @ lit ''&langpair='' @ format_value env source_lang
     @ lit ''|'' @ format_value env target_lang"

text \<open>The body of the \<open>try\<close> statement.\<close>

definition translate_text_try :: "env \<Rightarrow> ustr \<Rightarrow> json \<Rightarrow> json \<Rightarrow> json io" where
  "translate_text_try env text source_lang target_lang =
     io_bind (lift (quote text)) (\<lambda>encoded_text.
     io_bind (requests_get env (make_url env encoded_text source_lang target_lang)) (\<lambda>response.
     io_bind (lift (raise_for_status response)) (\<lambda>_.
     io_bind (lift (json_result response)) (\<lambda>data.
     io_bind (lift (dict_get data ''responseStatus'' JNull)) (\<lambda>st.
       if py_eq st (JInt 200) then
         io_bind (lift (subscript data ''responseData'')) (\<lambda>rd.
         io_bind (lift (subscript rd ''translatedText'')) (\<lambda>translated.
           return (success translated source_lang target_lang)))
       else
         io_bind (lift (dict_get data ''responseDetails'' (JStr (lit ''Translation failed''))))
           (\<lambda>details. return (failure details)))))))"

text \<open>
  The two \<open>except\<close> clauses, in their order: \<open>requests.RequestException\<close> first, any
  other \<open>Exception\<close> second.
\<close>

fun translate_text_except :: "exn \<Rightarrow> json io" where
  "translate_text_except (RequestException m) =
     return (failure (JStr (lit ''Network error: '' @ m)))"
| "translate_text_except (OtherException m) =
     return (failure (JStr (lit ''Translation error: '' @ m)))"

definition translate_text :: "env \<Rightarrow> ustr \<Rightarrow> json \<Rightarrow> json \<Rightarrow> json io" where
  "translate_text env text source_lang target_lang =
     try_except (translate_text_try env text source_lang target_lang) translate_text_except"

section \<open>The route \<open>POST /translate\<close>\<close>

text \<open>
  The request, as the handler reads it: what \<open>request.get_json()\<close> does (it returns the
  parsed body, or raises for a body that is not JSON).
\<close>

record request =
  get_json :: "json result"

text \<open>The body of the \<open>try\<close> statement of the handler, and its \<open>except\<close> clause.\<close>

definition translate_try :: "env \<Rightarrow> request \<Rightarrow> response io" where
  "translate_try env req =
     io_bind (lift (get_json req)) (\<lambda>data.
     io_bind (lift (if \<not> truthy data then Inr True
                    else bind (py_contains data (lit ''text'')) (\<lambda>b. Inr (\<not> b)))) (\<lambda>no_text.
       if no_text then return (jsonify (failure (JStr (lit ''No text provided''))))
       else
         io_bind (lift (bind (subscript data ''text'') method_strip)) (\<lambda>text.
         io_bind (lift (dict_get data ''source_lang'' (JStr (lit ''auto'')))) (\<lambda>source_lang.
         io_bind (lift (dict_get data ''target_lang'' (JStr (lit ''en'')))) (\<lambda>target_lang.
           if text = [] then
             return (jsonify (failure (JStr (lit ''Please enter text to translate''))))
           else if length text > 5000 then
             return (jsonify (failure (JStr (lit ''Text too long (max 5000 characters)''))))
           else if py_eq source_lang target_lang \<and> \<not> py_eq source_lang (JStr (lit ''auto'')) then
             return (jsonify (failure
                       (JStr (lit ''Source and target languages cannot be the same''))))
           else
             io_bind (translate_text env text source_lang target_lang) (\<lambda>result.
               return (jsonify result)))))))"

definition translate_except :: "exn \<Rightarrow> response io" where
  "translate_except e = return (jsonify (failure (JStr (lit ''Server error: '' @ str_exn e))))"

definition translate :: "env \<Rightarrow> request \<Rightarrow> response io" where
  "translate env req = try_except (translate_try env req) translate_except"

section \<open>Concrete environments and requests\<close>

text \<open>An environment in which every request to the provider times out.\<close>

definition env_unreachable :: env where
  "env_unreachable =
     \<lparr>provider = (\<lambda>u. raise (RequestException (lit ''timed out''))), py_repr = (\<lambda>v. [])\<rparr>"

text \<open>A request whose body parses to the given value.\<close>

definition req_of :: "json \<Rightarrow> request" where
  "req_of data = \<lparr>get_json = Inr data\<rparr>"

text \<open>A body with the text \<open>hello\<close> and the two language codes.\<close>

definition body_hello :: "string \<Rightarrow> string \<Rightarrow> json" where
  "body_hello src tgt =
     JObj [(lit ''text'', JStr (lit ''hello'')),
           (lit ''source_lang'', JStr (lit src)),
           (lit ''target_lang'', JStr (lit tgt))]"

text \<open>A body whose text is \<open>n\<close> letters \<open>a\<close> between white space.\<close>

definition body_a :: "nat \<Rightarrow> json" where
  "body_a n = JObj [(lit ''text'', JStr (lit ''  '' @ replicate n 0x61 @ lit '' ''))]"

text \<open>
  An environment in which the provider answers every request with the given status code
  and reason, and \<open>response.json()\<close> gives the given result.
\<close>

definition env_answering :: "nat \<Rightarrow> ustr \<Rightarrow> json result \<Rightarrow> env" where
  "env_answering sc rs jr =
     \<lparr>provider = (\<lambda>u. Inr \<lparr>status_code = sc, reason = rs, url = u, json_result = jr\<rparr>),
      py_repr = (\<lambda>v. [])\<rparr>"

text \<open>Payloads of the provider: a status alone, a translation, a status with null data.\<close>

definition payload_status_only :: json where
  "payload_status_only = JObj [(lit ''responseStatus'', JInt 200)]"

definition payload_hola :: json where
  "payload_hola =
     JObj [(lit ''responseData'',
              JObj [(lit ''translatedText'', JStr (lit ''hola'')),
                    (lit ''detectedLanguage'', JStr (lit ''en''))]),
           (lit ''responseDetails'', JStr []),
           (lit ''responseStatus'', JInt 200)]"


text \<open>A failure of the provider that is worded like the language check of the handler.\<close>

definition payload_same_words :: json where
  "payload_same_words =
     JObj [(lit ''responseStatus'', JInt 403),
           (lit ''responseDetails'',
            JStr (lit ''Source and target languages cannot be the same''))]"

text \<open>The URLs requested for the text \<open>hello\<close> from \<open>en\<close> and from \<open>auto\<close> to \<open>es\<close>, and from \<open>en\<close> to \<open>fr\<close>.\<close>

definition url_hello_en_es :: ustr where
  "url_hello_en_es = lit ''https://api.mymemory.translated.net/get?q=hello&langpair=en|es''"

definition url_hello_auto_es :: ustr where
  "url_hello_auto_es = lit ''https://api.mymemory.translated.net/get?q=hello&langpair=auto|es''"

definition url_hello_en_fr :: ustr where
  "url_hello_en_fr = lit ''https://api.mymemory.translated.net/get?q=hello&langpair=en|fr''"


section \<open>Basic facts\<close>

lemma lit_eq_iff: "lit a = lit b \<longleftrightarrow> a = b"
  unfolding lit_def by (simp add: inj_map_eq_map inj_on_def)

lemma io_bind_lift_Inr [simp]: "io_bind (lift (Inr v)) f calls = f v calls"
  by (simp add: io_bind_def lift_def)

lemma io_bind_lift_Inl [simp]: "io_bind (lift (Inl e)) f calls = (Inl e, calls)"
  by (simp add: io_bind_def lift_def)

lemma io_bind_lift_raise [simp]: "io_bind (lift (raise e)) f calls = (Inl e, calls)"
  by (simp add: io_bind_def lift_def raise_def)

lemma io_bind_return [simp]: "io_bind (return v) f calls = f v calls"
  by (simp add: io_bind_def return_def)

lemma try_except_Inr: "m calls = (Inr v, calls') \<Longrightarrow> try_except m h calls = (Inr v, calls')"
  by (simp add: try_except_def)

lemma try_except_Inl: "m calls = (Inl e, calls') \<Longrightarrow> try_except m h calls = h e calls'"
  by (simp add: try_except_def)

lemma translate_text_except_returns:
  "\<exists>r. translate_text_except e calls = (Inr r, calls)"
  by (cases e) (simp_all add: return_def)

text \<open>\<open>translate_text\<close> returns a dictionary on every input and in every environment.\<close>

lemma translate_text_total:
  "\<exists>r calls'. translate_text env text s t calls = (Inr r, calls')"
proof (cases "translate_text_try env text s t calls")
  case (Pair r calls')
  show ?thesis
  proof (cases r)
    case (Inl e)
    with Pair translate_text_except_returns [of e calls'] show ?thesis
      by (auto simp: translate_text_def try_except_def)
  next
    case (Inr v)
    with Pair show ?thesis
      by (auto simp: translate_text_def try_except_def)
  qed
qed

text \<open>
  The handler on a body that is a dictionary whose \<open>text\<close> is a string: the three
  checks in their order, then the call of \<open>translate_text\<close>.
\<close>

lemma translate_on_text:
  assumes "get_json req = Inr (JObj kvs)"
    and "lookup kvs (lit ''text'') = Some (JStr s)"
    and "dict_get (JObj kvs) ''source_lang'' (JStr (lit ''auto'')) = Inr source_lang"
    and "dict_get (JObj kvs) ''target_lang'' (JStr (lit ''en'')) = Inr target_lang"
  shows "translate env req calls =
     (if strip s = [] then
        (Inr (jsonify (failure (JStr (lit ''Please enter text to translate'')))), calls)
      else if length (strip s) > 5000 then
        (Inr (jsonify (failure (JStr (lit ''Text too long (max 5000 characters)'')))), calls)
      else if py_eq source_lang target_lang \<and> \<not> py_eq source_lang (JStr (lit ''auto'')) then
        (Inr (jsonify (failure (JStr (lit ''Source and target languages cannot be the same'')))),
         calls)
      else io_bind (translate_text env (strip s) source_lang target_lang)
             (\<lambda>result. return (jsonify result)) calls)"
proof -
  from assms(2) have ne: "kvs \<noteq> []" by auto
  obtain r calls' where
    r: "translate_text env (strip s) source_lang target_lang calls = (Inr r, calls')"
    using translate_text_total by blast
  show ?thesis
    using assms ne r
    by (simp add: translate_def translate_try_def try_except_def bind_def return_def
        io_bind_def lift_def)
qed

lemma strip_replicate: "\<not> isspace c \<Longrightarrow> strip (replicate n c) = replicate n c"
  by (simp add: strip_def dropWhile_replicate)

section \<open>The language catalog and \<open>GET /languages\<close>\<close>

text \<open>
  C8. \<open>GET /languages\<close> answers with status 200 and a JSON object whose keys are the
  codes of \<open>get_supported_languages\<close>, in its order: 30 keys, all different, \<open>auto\<close>
  among them. \<open>get_supported_languages\<close> takes no argument and reads no state: it is a
  constant, the same mapping at every call.
\<close>

theorem languages_keys:
  "keys (body get_languages) = map (\<lambda>kv. lit (fst kv)) get_supported_languages
   \<and> length (keys (body get_languages)) = 30
   \<and> distinct (keys (body get_languages))
   \<and> card (set (keys (body get_languages))) = 30
   \<and> lit ''auto'' \<in> set (keys (body get_languages))
   \<and> status get_languages = 200"
proof -
  have k: "keys (body get_languages) = map (\<lambda>kv. lit (fst kv)) get_supported_languages"
    by (simp add: get_languages_def jsonify_def dict_of_def case_prod_unfold)
  have d: "distinct (map fst get_supported_languages)"
    by (simp add: get_supported_languages_def)
  have "distinct (map lit (map fst get_supported_languages))"
    using d by (simp add: distinct_map inj_on_def lit_eq_iff del: map_map)
  then have d': "distinct (keys (body get_languages))"
    by (simp add: k comp_def)
  have n: "length (keys (body get_languages)) = 30"
    by (simp add: k get_supported_languages_def)
  have c: "card (set (keys (body get_languages))) = 30"
    using distinct_card [OF d'] n by simp
  have a: "lit ''auto'' \<in> set (keys (body get_languages))"
    by (simp add: k get_supported_languages_def)
  have s: "status get_languages = 200"
    by (simp add: get_languages_def jsonify_def)
  from k n d' c a s show ?thesis by blast
qed

section \<open>Validation in \<open>POST /translate\<close>\<close>

text \<open>
  C6. When the body is a dictionary whose \<open>text\<close> is a string that \<open>strip()\<close> leaves
  empty (an empty string, or white space only), the handler answers
  \<open>{success: false, error: "Please enter text to translate"}\<close>, and the log of requests
  to the provider is what it was before: \<open>translate_text\<close> is not called.
\<close>

theorem empty_text_rejected:
  assumes "get_json req = Inr (JObj kvs)"
    and "lookup kvs (lit ''text'') = Some (JStr s)"
    and "strip s = []"
  shows "translate env req calls =
           (Inr (jsonify (failure (JStr (lit ''Please enter text to translate'')))), calls)"
proof -
  obtain a b where "dict_get (JObj kvs) ''source_lang'' (JStr (lit ''auto'')) = Inr a"
    "dict_get (JObj kvs) ''target_lang'' (JStr (lit ''en'')) = Inr b"
    by simp
  from translate_on_text [OF assms(1,2) this] assms(3) show ?thesis by simp
qed

theorem empty_text_rejected_witness:
  "strip (lit ''  '' @ [0x3000, 0x0A]) = []
   \<and> translate env_unreachable
         (req_of (JObj [(lit ''text'', JStr (lit ''  '' @ [0x3000, 0x0A]))])) []
       = (Inr (jsonify (failure (JStr (lit ''Please enter text to translate'')))), [])"
proof -
  have h: "strip (lit ''  '' @ [0x3000, 0x0A]) = []"
    by (simp add: strip_def lit_def isspace_def)
  have g: "get_json (req_of (JObj [(lit ''text'', JStr (lit ''  '' @ [0x3000, 0x0A]))]))
           = Inr (JObj [(lit ''text'', JStr (lit ''  '' @ [0x3000, 0x0A]))])"
    by (simp add: req_of_def)
  have l: "lookup [(lit ''text'', JStr (lit ''  '' @ [0x3000, 0x0A]))] (lit ''text'')
           = Some (JStr (lit ''  '' @ [0x3000, 0x0A]))"
    by simp
  show ?thesis
    using h empty_text_rejected [OF g l h, of env_unreachable "[]"] by simp
qed

lemma utf8_encode_from_raises:
  "utf8_encode_from i s = Inl e \<Longrightarrow> \<exists>m. e = OtherException m"
  by (induction s arbitrary: i)
     (auto simp: raise_def bind_def UnicodeEncodeError_def split: if_splits sum.splits)

lemma quote_raises: "quote s = Inl e \<Longrightarrow> \<exists>m. e = OtherException m"
  by (auto simp: quote_def utf8_encode_def bind_def split: if_splits sum.splits
      dest: utf8_encode_from_raises)

lemma translate_text_try_calls:
  assumes "translate_text_try env text s t calls = (r, calls')"
  shows "(\<exists>u. calls' = calls @ [u]) \<or> (calls' = calls \<and> (\<exists>m. r = Inl (OtherException m)))"
proof (cases "quote text")
  case (Inl e)
  with quote_raises [OF Inl] assms show ?thesis
    by (auto simp: translate_text_try_def)
next
  case (Inr enc)
  with assms show ?thesis
    by (auto simp: translate_text_try_def io_bind_def lift_def requests_get_def return_def
        split: sum.splits if_splits prod.splits)
qed

lemma translate_text_calls:
  assumes "translate_text env text s t calls = (r, calls')"
  shows "(\<exists>u. calls' = calls @ [u])
       \<or> (calls' = calls \<and> (\<exists>m. r = Inr (failure (JStr (lit ''Translation error: '' @ m)))))"
proof (cases "translate_text_try env text s t calls")
  case (Pair r0 c0)
  from translate_text_try_calls [OF Pair] show ?thesis
  proof
    assume "\<exists>u. c0 = calls @ [u]"
    with Pair assms show ?thesis
      by (cases r0; cases "projl r0")
         (auto simp: translate_text_def try_except_def return_def)
  next
    assume "c0 = calls \<and> (\<exists>m. r0 = Inl (OtherException m))"
    with Pair assms show ?thesis
      by (auto simp: translate_text_def try_except_def return_def)
  qed
qed

lemma failure_msg_neq:
  "failure (JStr (lit ''Translation error: '' @ m))
   \<noteq> failure (JStr (lit ''Source and target languages cannot be the same''))"
  by (simp add: failure_def lit_def)

text \<open>
  C2, as amended. On a body whose text, stripped, is not empty and not longer than 5000,
  the handler answers
  \<open>{success: false, error: "Source and target languages cannot be the same"}\<close>
  without a request to the provider exactly when \<open>source_lang == target_lang\<close> and
  \<open>source_lang != "auto"\<close>. Otherwise it goes on to \<open>translate_text\<close> and answers with its
  result; so it does when both languages are \<open>auto\<close>.
\<close>

theorem same_language_check:
  assumes "get_json req = Inr (JObj kvs)"
    and "lookup kvs (lit ''text'') = Some (JStr s)"
    and "dict_get (JObj kvs) ''source_lang'' (JStr (lit ''auto'')) = Inr source_lang"
    and "dict_get (JObj kvs) ''target_lang'' (JStr (lit ''en'')) = Inr target_lang"
    and "strip s \<noteq> []" and "length (strip s) \<le> 5000"
  shows "(translate env req calls =
            (Inr (jsonify (failure
               (JStr (lit ''Source and target languages cannot be the same'')))), calls)
          \<longleftrightarrow> py_eq source_lang target_lang \<and> \<not> py_eq source_lang (JStr (lit ''auto'')))
       \<and> (\<not> (py_eq source_lang target_lang \<and> \<not> py_eq source_lang (JStr (lit ''auto''))) \<longrightarrow>
            translate env req calls =
              io_bind (translate_text env (strip s) source_lang target_lang)
                (\<lambda>result. return (jsonify result)) calls)
       \<and> (source_lang = JStr (lit ''auto'') \<and> target_lang = JStr (lit ''auto'') \<longrightarrow>
            translate env req calls =
              io_bind (translate_text env (strip s) source_lang target_lang)
                (\<lambda>result. return (jsonify result)) calls)"
proof -
  let ?same = "py_eq source_lang target_lang \<and> \<not> py_eq source_lang (JStr (lit ''auto''))"
  let ?err = "(Inr (jsonify (failure
               (JStr (lit ''Source and target languages cannot be the same'')))), calls)"
  let ?go = "io_bind (translate_text env (strip s) source_lang target_lang)
                (\<lambda>result. return (jsonify result)) calls"
  have t: "translate env req calls = (if ?same then ?err else ?go)"
    using translate_on_text [OF assms(1-4), of env calls] assms(5,6) by simp
  have ne: "?go \<noteq> ?err"
  proof -
    obtain r c where rc: "translate_text env (strip s) source_lang target_lang calls = (r, c)"
      by (cases "translate_text env (strip s) source_lang target_lang calls")
    from translate_text_calls [OF rc] show ?thesis
    proof
      assume "\<exists>u. c = calls @ [u]"
      with rc show ?thesis
        by (cases r) (auto simp: io_bind_def return_def)
    next
      assume "c = calls \<and> (\<exists>m. r = Inr (failure (JStr (lit ''Translation error: '' @ m))))"
      with rc failure_msg_neq show ?thesis
        by (auto simp: io_bind_def return_def jsonify_def)
    qed
  qed
  from t ne show ?thesis by auto
qed

lemma strip_hello: "strip (lit ''hello'') = lit ''hello''"
  by (simp add: strip_def lit_def isspace_def)

lemma body_hello_facts:
  "get_json (req_of (body_hello a b)) =
     Inr (JObj [(lit ''text'', JStr (lit ''hello'')),
           (lit ''source_lang'', JStr (lit a)),
           (lit ''target_lang'', JStr (lit b))])"
  "lookup [(lit ''text'', JStr (lit ''hello'')),
           (lit ''source_lang'', JStr (lit a)),
           (lit ''target_lang'', JStr (lit b))] (lit ''text'') = Some (JStr (lit ''hello''))"
  "dict_get (JObj [(lit ''text'', JStr (lit ''hello'')),
           (lit ''source_lang'', JStr (lit a)),
           (lit ''target_lang'', JStr (lit b))]) ''source_lang'' (JStr (lit ''auto'')) = Inr (JStr (lit a))"
  "dict_get (JObj [(lit ''text'', JStr (lit ''hello'')),
           (lit ''source_lang'', JStr (lit a)),
           (lit ''target_lang'', JStr (lit b))]) ''target_lang'' (JStr (lit ''en'')) = Inr (JStr (lit b))"
  by (simp_all add: req_of_def body_hello_def lit_eq_iff)

theorem same_language_check_witness:
  "translate env_unreachable (req_of (body_hello ''en'' ''en'')) [] =
     (Inr (jsonify (failure (JStr (lit ''Source and target languages cannot be the same'')))), [])
   \<and> translate env_unreachable (req_of (body_hello ''auto'' ''auto'')) [] =
       io_bind (translate_text env_unreachable (lit ''hello'') (JStr (lit ''auto''))
                  (JStr (lit ''auto'')))
         (\<lambda>result. return (jsonify result)) []
   \<and> translate env_unreachable (req_of (body_hello ''en'' ''fr'')) [] =
       io_bind (translate_text env_unreachable (lit ''hello'') (JStr (lit ''en''))
                  (JStr (lit ''fr'')))
         (\<lambda>result. return (jsonify result)) []"
proof -
  have ne: "strip (lit ''hello'') \<noteq> []" and le: "length (strip (lit ''hello'')) \<le> 5000"
    by (simp_all add: strip_hello) (simp_all add: lit_def)
  show ?thesis
    using same_language_check [OF body_hello_facts [of "''en''" "''en''"] ne le,
        where env = env_unreachable and calls = "[]"]
      same_language_check [OF body_hello_facts [of "''auto''" "''auto''"] ne le,
        where env = env_unreachable and calls = "[]"]
      same_language_check [OF body_hello_facts [of "''en''" "''fr''"] ne le,
        where env = env_unreachable and calls = "[]"]
    by (simp add: strip_hello lit_eq_iff)
qed

text \<open>
  C3. The length check reads the stripped text, and its bound is inclusive: a stripped
  text longer than 5000 (5001 is the first) is answered with
  \<open>{success: false, error: "Text too long (max 5000 characters)"}\<close> and no request to the
  provider; a stripped text of 1 to 5000 characters passes to the language check and, from
  there, to \<open>translate_text\<close>.
\<close>

theorem length_bound_inclusive:
  assumes "get_json req = Inr (JObj kvs)"
    and "lookup kvs (lit ''text'') = Some (JStr s)"
    and "dict_get (JObj kvs) ''source_lang'' (JStr (lit ''auto'')) = Inr source_lang"
    and "dict_get (JObj kvs) ''target_lang'' (JStr (lit ''en'')) = Inr target_lang"
  shows "(5000 < length (strip s) \<longrightarrow>
            translate env req calls =
              (Inr (jsonify (failure (JStr (lit ''Text too long (max 5000 characters)'')))), calls))
       \<and> (0 < length (strip s) \<and> length (strip s) \<le> 5000 \<longrightarrow>
            translate env req calls =
              (if py_eq source_lang target_lang \<and> \<not> py_eq source_lang (JStr (lit ''auto''))
               then (Inr (jsonify (failure
                       (JStr (lit ''Source and target languages cannot be the same'')))), calls)
               else io_bind (translate_text env (strip s) source_lang target_lang)
                      (\<lambda>result. return (jsonify result)) calls))"
  using translate_on_text [OF assms] by auto

lemma strip_a: "strip (lit ''  '' @ replicate n 0x61 @ lit '' '') = replicate n 0x61"
  by (simp add: strip_def lit_def isspace_def dropWhile_append dropWhile_replicate)

lemma body_a_facts:
  "get_json (req_of (body_a n)) = Inr (JObj [(lit ''text'', JStr (lit ''  '' @ replicate n 0x61 @ lit '' ''))])"
  "lookup [(lit ''text'', JStr (lit ''  '' @ replicate n 0x61 @ lit '' ''))] (lit ''text'')
     = Some (JStr (lit ''  '' @ replicate n 0x61 @ lit '' ''))"
  "dict_get (JObj [(lit ''text'', JStr (lit ''  '' @ replicate n 0x61 @ lit '' ''))])
     ''source_lang'' (JStr (lit ''auto'')) = Inr (JStr (lit ''auto''))"
  "dict_get (JObj [(lit ''text'', JStr (lit ''  '' @ replicate n 0x61 @ lit '' ''))])
     ''target_lang'' (JStr (lit ''en'')) = Inr (JStr (lit ''en''))"
  by (simp_all add: req_of_def body_a_def lit_eq_iff)

theorem length_bound_inclusive_witness:
  "translate env_unreachable (req_of (body_a 5001)) [] =
     (Inr (jsonify (failure (JStr (lit ''Text too long (max 5000 characters)'')))), [])
   \<and> translate env_unreachable (req_of (body_a 5000)) [] =
       io_bind (translate_text env_unreachable (replicate 5000 0x61) (JStr (lit ''auto''))
                  (JStr (lit ''en'')))
         (\<lambda>result. return (jsonify result)) []"
  using length_bound_inclusive [OF body_a_facts [of 5001], where env = env_unreachable and calls = "[]"]
    length_bound_inclusive [OF body_a_facts [of 5000], where env = env_unreachable and calls = "[]"]
  by (simp add: strip_a lit_eq_iff)

lemma translate_call_status:
  "io_bind (translate_text env tx a b) (\<lambda>result. return (jsonify result)) c = (Inr r, c')
   \<Longrightarrow> status r = 200"
  by (auto simp: io_bind_def return_def jsonify_def split: sum.splits prod.splits)

lemma return_jsonify_status:
  "return (jsonify d) c = (Inr r, c') \<Longrightarrow> status r = 200"
  by (auto simp: return_def jsonify_def)

lemma translate_try_status:
  assumes "translate_try env req calls = (Inr r, calls')"
  shows "status r = 200"
proof (cases "get_json req")
  case (Inl e)
  with assms show ?thesis by (simp add: translate_try_def)
next
  case (Inr data)
  let ?nt = "if \<not> truthy data then Inr True
             else bind (py_contains data (lit ''text'')) (\<lambda>b. Inr (\<not> b))"
  show ?thesis
  proof (cases ?nt)
    case (Inl e)
    with assms Inr show ?thesis by (simp add: translate_try_def)
  next
    case nt: (Inr no_text)
    show ?thesis
    proof (cases no_text)
      case True
      with assms Inr nt show ?thesis
        by (auto simp: translate_try_def return_def jsonify_def)
    next
      case False
      show ?thesis
      proof (cases "bind (subscript data ''text'') method_strip")
        case (Inl e)
        with assms Inr nt False show ?thesis by (simp add: translate_try_def)
      next
        case tx: (Inr tx)
        show ?thesis
        proof (cases "dict_get data ''source_lang'' (JStr (lit ''auto''))")
          case (Inl e)
          with assms Inr nt False tx show ?thesis by (simp add: translate_try_def)
        next
          case src: (Inr src)
          show ?thesis
          proof (cases "dict_get data ''target_lang'' (JStr (lit ''en''))")
            case (Inl e)
            with assms Inr nt False tx src show ?thesis by (simp add: translate_try_def)
          next
            case tgt: (Inr tgt)
            from assms Inr nt False tx src tgt show ?thesis
              by (auto simp: translate_try_def split: if_splits
                  dest: translate_call_status return_jsonify_status)
          qed
        qed
      qed
    qed
  qed
qed

text \<open>
  C10. The handler of \<open>POST /translate\<close> always returns a response, and its status is 200:
  for a translation, for each validation failure, for each failure of \<open>translate_text\<close> and
  for a fault caught by the handler. The statuses 404 and 500 are those of the two error
  handlers.
\<close>

theorem always_status_200:
  "(\<exists>r calls'. translate env req calls = (Inr r, calls') \<and> status r = 200)
   \<and> status not_found = 404 \<and> status internal_error = 500"
proof -
  have "\<exists>r calls'. translate env req calls = (Inr r, calls') \<and> status r = 200"
  proof (cases "translate_try env req calls")
    case (Pair x c)
    then show ?thesis
      by (cases x)
         (auto simp: translate_def try_except_def translate_except_def return_def jsonify_def
               dest: translate_try_status)
  qed
  then show ?thesis
    by (simp add: not_found_def internal_error_def)
qed

text \<open>
  C9. An exception raised in the \<open>try\<close> body of the handler is caught and answered with
  \<open>{success: false, error: "Server error: <str(e)>"}\<close>: so for \<open>get_json\<close> raising, and so
  for a \<open>text\<close> that is not a string (a number, \<open>null\<close>, a list), where \<open>.strip()\<close> raises
  the \<open>AttributeError\<close> of that type.
\<close>

theorem server_error_envelope:
  "(translate_try env req calls = (Inl e, calls') \<longrightarrow>
      translate env req calls =
        (Inr (jsonify (failure (JStr (lit ''Server error: '' @ str_exn e)))), calls'))
   \<and> (get_json req = Inl e \<longrightarrow>
      translate env req calls =
        (Inr (jsonify (failure (JStr (lit ''Server error: '' @ str_exn e)))), calls))
   \<and> (get_json req = Inr (JObj kvs) \<and> lookup kvs (lit ''text'') = Some v
        \<and> (\<forall>s. v \<noteq> JStr s) \<longrightarrow>
      translate env req calls =
        (Inr (jsonify (failure (JStr (lit ''Server error: ''
            @ lit [CHR 0x27] @ type_name v @ lit ''' object has no attribute ''
            @ lit [CHR 0x27] @ lit ''strip'' @ lit [CHR 0x27])))), calls))"
proof (intro conjI impI)
  assume "translate_try env req calls = (Inl e, calls')"
  then show "translate env req calls =
        (Inr (jsonify (failure (JStr (lit ''Server error: '' @ str_exn e)))), calls')"
    by (simp add: translate_def try_except_def translate_except_def return_def)
next
  assume "get_json req = Inl e"
  then show "translate env req calls =
        (Inr (jsonify (failure (JStr (lit ''Server error: '' @ str_exn e)))), calls)"
    by (simp add: translate_def try_except_def translate_except_def return_def translate_try_def)
next
  assume a: "get_json req = Inr (JObj kvs) \<and> lookup kvs (lit ''text'') = Some v
        \<and> (\<forall>s. v \<noteq> JStr s)"
  then have ne: "kvs \<noteq> []" by auto
  from a have ms: "method_strip v = raise (AttributeError v ''strip'')"
    by (cases v) auto
  from a ne ms show "translate env req calls =
        (Inr (jsonify (failure (JStr (lit ''Server error: ''
            @ lit [CHR 0x27] @ type_name v @ lit ''' object has no attribute ''
            @ lit [CHR 0x27] @ lit ''strip'' @ lit [CHR 0x27])))), calls)"
    by (simp add: translate_def try_except_def translate_except_def return_def translate_try_def
        bind_def raise_def AttributeError_def)
qed

theorem server_error_envelope_witness:
  "translate env_unreachable (req_of (JObj [(lit ''text'', JInt 5)])) [] =
     (Inr (jsonify (failure (JStr (lit ''Server error: ''
            @ lit [CHR 0x27] @ lit ''int'' @ lit ''' object has no attribute ''
            @ lit [CHR 0x27] @ lit ''strip'' @ lit [CHR 0x27])))), [])
   \<and> translate env_unreachable \<lparr>get_json = Inl (OtherException (lit ''400 Bad Request''))\<rparr> [] =
     (Inr (jsonify (failure (JStr (lit ''Server error: 400 Bad Request'')))), [])"
  using server_error_envelope [of env_unreachable "req_of (JObj [(lit ''text'', JInt 5)])" "[]"
      "OtherException []" "[]" "[(lit ''text'', JInt 5)]" "JInt 5"]
    server_error_envelope [of env_unreachable
      "\<lparr>get_json = Inl (OtherException (lit ''400 Bad Request''))\<rparr>" "[]"
      "OtherException (lit ''400 Bad Request'')"]
  by (simp add: req_of_def lit_def)

theorem always_status_200_witness:
  "\<exists>r calls'. translate env_unreachable (req_of (body_hello ''en'' ''fr'')) [] = (Inr r, calls')
     \<and> status r = 200"
  using always_status_200 [of env_unreachable "req_of (body_hello ''en'' ''fr'')" "[]"]
  by simp

section \<open>URL encoding of the text\<close>


















lemma lone_surrogate_message:
  "str_exn (UnicodeEncodeError 0xD800 0 1) =
     lit [CHR 0x27] @ lit ''utf-8'' @ lit [CHR 0x27] @ lit '' codec can'' @ lit [CHR 0x27]
     @ lit ''t encode character '' @ lit [CHR 0x27, CHR 0x5C] @ lit ''ud800'' @ lit [CHR 0x27]
     @ lit '' in position 0: surrogates not allowed''"
  by (simp add: UnicodeEncodeError_def hex_lower_def lit_def str_nat.simps)

section \<open>Results of \<open>translate_text\<close>\<close>

lemma quote_hello: "quote (lit ''hello'') = Inr (lit ''hello'')"
  by (simp add: quote_def utf8_encode_def bind_def is_surrogate_def utf8_char_def
      quote_from_bytes_def quote_byte_def is_safe_def lit_def)

lemma make_url_hello:
  "make_url env (lit ''hello'') (JStr (lit ''en'')) (JStr (lit ''es'')) = url_hello_en_es"
  by (simp add: make_url_def base_url_def url_hello_en_es_def lit_def)

lemma py_eq_200: "py_eq (JInt 200) (JInt 200)"
  by (simp add: py_eq.simps(1))

lemma translate_text_after_get:
  assumes "quote tx = Inr encoded_text"
    and "provider env (make_url env encoded_text source_lang target_lang) = Inr response"
    and "raise_for_status response = Inr ()"
  shows "translate_text_try env tx source_lang target_lang calls =
     (bind (json_result response) (\<lambda>data.
      bind (dict_get data ''responseStatus'' JNull) (\<lambda>st.
        if py_eq st (JInt 200) then
          bind (subscript data ''responseData'') (\<lambda>rd.
          bind (subscript rd ''translatedText'') (\<lambda>translated.
            Inr (success translated source_lang target_lang)))
        else
          bind (dict_get data ''responseDetails'' (JStr (lit ''Translation failed'')))
            (\<lambda>details. Inr (failure details)))),
      calls @ [make_url env encoded_text source_lang target_lang])"
  using assms
  by (simp add: translate_text_try_def requests_get_def io_bind_def lift_def return_def bind_def
      split: sum.splits)

text \<open>
  C1, as amended. When the request to the provider succeeds, the body parses to a
  dictionary whose \<open>responseStatus\<close> equals 200, and
  \<open>data['responseData']['translatedText']\<close> can be read, \<open>translate_text\<close> returns
  \<open>{success: true, translated_text, source_lang, target_lang}\<close> with the translated text
  of the provider and with the \<open>source_lang\<close> and \<open>target_lang\<close> of the call, whatever
  else the payload holds.
\<close>

theorem success_echoes_request:
  assumes "quote tx = Inr encoded_text"
    and "provider env (make_url env encoded_text source_lang target_lang) = Inr response"
    and "raise_for_status response = Inr ()"
    and "json_result response = Inr data"
    and "dict_get data ''responseStatus'' JNull = Inr st"
    and "py_eq st (JInt 200)"
    and "subscript data ''responseData'' = Inr rd"
    and "subscript rd ''translatedText'' = Inr translated"
  shows "translate_text env tx source_lang target_lang calls =
           (Inr (success translated source_lang target_lang),
            calls @ [make_url env encoded_text source_lang target_lang])
       \<and> subscript (success translated source_lang target_lang) ''success'' = Inr (JBool True)
       \<and> subscript (success translated source_lang target_lang) ''translated_text''
           = Inr translated
       \<and> subscript (success translated source_lang target_lang) ''source_lang''
           = Inr source_lang
       \<and> subscript (success translated source_lang target_lang) ''target_lang''
           = Inr target_lang"
proof -
  have "translate_text_try env tx source_lang target_lang calls =
          (Inr (success translated source_lang target_lang),
           calls @ [make_url env encoded_text source_lang target_lang])"
    using translate_text_after_get [OF assms(1-3), of calls] assms(4-8)
    by (simp add: bind_def)
  then have "translate_text env tx source_lang target_lang calls =
           (Inr (success translated source_lang target_lang),
            calls @ [make_url env encoded_text source_lang target_lang])"
    by (simp add: translate_text_def try_except_def)
  moreover have "subscript (success translated source_lang target_lang) ''success''
                  = Inr (JBool True)"
    "subscript (success translated source_lang target_lang) ''translated_text'' = Inr translated"
    "subscript (success translated source_lang target_lang) ''source_lang'' = Inr source_lang"
    "subscript (success translated source_lang target_lang) ''target_lang'' = Inr target_lang"
    by (simp_all add: success_def lit_eq_iff)
  ultimately show ?thesis by simp
qed

theorem success_echoes_request_witness:
  "translate_text (env_answering 200 (lit ''OK'') (Inr payload_hola)) (lit ''hello'')
     (JStr (lit ''auto'')) (JStr (lit ''es'')) [] =
     (Inr (success (JStr (lit ''hola'')) (JStr (lit ''auto'')) (JStr (lit ''es''))),
      [url_hello_auto_es])
   \<and> subscript (success (JStr (lit ''hola'')) (JStr (lit ''auto'')) (JStr (lit ''es'')))
        ''source_lang'' = Inr (JStr (lit ''auto''))"
proof -
  let ?env = "env_answering 200 (lit ''OK'') (Inr payload_hola)"
  let ?resp = "\<lparr>status_code = 200, reason = lit ''OK'', url = url_hello_auto_es,
                 json_result = Inr payload_hola\<rparr>"
  let ?rd = "JObj [(lit ''translatedText'', JStr (lit ''hola'')),
                   (lit ''detectedLanguage'', JStr (lit ''en''))]"
  have u: "make_url ?env (lit ''hello'') (JStr (lit ''auto'')) (JStr (lit ''es''))
           = url_hello_auto_es"
    by (simp add: make_url_def base_url_def url_hello_auto_es_def lit_def)
  have h2: "provider ?env (make_url ?env (lit ''hello'') (JStr (lit ''auto'')) (JStr (lit ''es'')))
            = Inr ?resp"
    by (simp add: u) (simp add: env_answering_def)
  have h3: "raise_for_status ?resp = Inr ()"
    by (simp add: raise_for_status_def)
  have h4: "json_result ?resp = Inr payload_hola" by simp
  have h5: "dict_get payload_hola ''responseStatus'' JNull = Inr (JInt 200)"
    by (simp add: payload_hola_def lit_eq_iff)
  have h7: "subscript payload_hola ''responseData'' = Inr ?rd"
    by (simp add: payload_hola_def lit_eq_iff)
  have h8: "subscript ?rd ''translatedText'' = Inr (JStr (lit ''hola''))"
    by (simp add: lit_eq_iff)
  show ?thesis
    using success_echoes_request [OF quote_hello h2 h3 h4 h5 py_eq_200 h7 h8, of "[]"]
    by (simp add: u)
qed

text \<open>
  The claim as stated fails for a payload with \<open>responseStatus\<close> 200 and no
  \<open>responseData\<close>: the result is a failure.
\<close>

theorem status_200_without_data_counterexample:
  "dict_get payload_status_only ''responseStatus'' JNull = Inr (JInt 200)
   \<and> translate_text (env_answering 200 (lit ''OK'') (Inr payload_status_only)) (lit ''hello'')
       (JStr (lit ''en'')) (JStr (lit ''es'')) [] =
       (Inr (failure (JStr (lit ''Translation error: '' @ lit [CHR 0x27] @ lit ''responseData''
                            @ lit [CHR 0x27]))),
        [url_hello_en_es])"
proof -
  let ?env = "env_answering 200 (lit ''OK'') (Inr payload_status_only)"
  let ?resp = "\<lparr>status_code = 200, reason = lit ''OK'', url = url_hello_en_es,
                 json_result = Inr payload_status_only\<rparr>"
  have h2: "provider ?env (make_url ?env (lit ''hello'') (JStr (lit ''en'')) (JStr (lit ''es'')))
            = Inr ?resp"
    by (simp add: env_answering_def make_url_hello)
  have h3: "raise_for_status ?resp = Inr ()"
    by (simp add: raise_for_status_def)
  have d: "dict_get payload_status_only ''responseStatus'' JNull = Inr (JInt 200)"
    by (simp add: payload_status_only_def)
  have s: "subscript payload_status_only ''responseData'' = raise (KeyError ''responseData'')"
    by (simp add: payload_status_only_def lit_eq_iff)
  have "translate_text_try ?env (lit ''hello'') (JStr (lit ''en'')) (JStr (lit ''es'')) [] =
          (Inl (KeyError ''responseData''), [url_hello_en_es])"
    using translate_text_after_get [OF quote_hello h2 h3, of "[]"] d s py_eq_200
    by (simp add: bind_def raise_def make_url_hello)
  then show ?thesis
    using d by (simp add: translate_text_def try_except_def KeyError_def return_def)
qed







text \<open>
  A transport failure that \<open>requests\<close> reports by a \<open>RequestException\<close>, and a status
  code from 400 to 599, give \<open>{success: false, error: "Network error: ..."}\<close>.
\<close>

lemma transport_failure_network_error:
  "(quote tx = Inr encoded_text
      \<and> provider env (make_url env encoded_text source_lang target_lang)
          = Inl (RequestException m)
      \<longrightarrow> translate_text env tx source_lang target_lang calls =
            (Inr (failure (JStr (lit ''Network error: '' @ m))),
             calls @ [make_url env encoded_text source_lang target_lang]))
   \<and> (quote tx = Inr encoded_text
      \<and> provider env (make_url env encoded_text source_lang target_lang) = Inr response
      \<and> 400 \<le> status_code response \<and> status_code response < 600
      \<longrightarrow> (\<exists>m. translate_text env tx source_lang target_lang calls =
            (Inr (failure (JStr (lit ''Network error: '' @ m))),
             calls @ [make_url env encoded_text source_lang target_lang])))"
  by (auto simp: translate_text_def try_except_def translate_text_try_def requests_get_def
      io_bind_def lift_def return_def raise_for_status_def raise_def)

text \<open>
  C5. The source comments \<open>raise_for_status()\<close> with "Raise error if status is not 200",
  and the claim expects a network failure for every status outside 2xx. For the final
  status 300, \<open>raise_for_status\<close> raises nothing: with a well-formed payload in the body the
  result is a success.
\<close>

theorem status_300_not_raised:
  "raise_for_status \<lparr>status_code = 300, reason = lit ''Multiple Choices'',
                      url = url_hello_en_es, json_result = Inr payload_hola\<rparr> = Inr ()
   \<and> translate_text (env_answering 300 (lit ''Multiple Choices'') (Inr payload_hola))
       (lit ''hello'') (JStr (lit ''en'')) (JStr (lit ''es'')) [] =
       (Inr (success (JStr (lit ''hola'')) (JStr (lit ''en'')) (JStr (lit ''es''))),
        [url_hello_en_es])"
proof -
  let ?env = "env_answering 300 (lit ''Multiple Choices'') (Inr payload_hola)"
  let ?resp = "\<lparr>status_code = 300, reason = lit ''Multiple Choices'', url = url_hello_en_es,
                 json_result = Inr payload_hola\<rparr>"
  have h2: "provider ?env (make_url ?env (lit ''hello'') (JStr (lit ''en'')) (JStr (lit ''es'')))
            = Inr ?resp"
    by (simp add: env_answering_def make_url_hello)
  have h3: "raise_for_status ?resp = Inr ()"
    by (simp add: raise_for_status_def)
  have "translate_text_try ?env (lit ''hello'') (JStr (lit ''en'')) (JStr (lit ''es'')) [] =
          (Inr (success (JStr (lit ''hola'')) (JStr (lit ''en'')) (JStr (lit ''es''))),
           [url_hello_en_es])"
    using translate_text_after_get [OF quote_hello h2 h3, of "[]"] py_eq_200
    by (simp add: bind_def make_url_hello payload_hola_def lit_eq_iff)
  then show ?thesis
    using h3 by (simp add: translate_text_def try_except_def)
qed

section \<open>A provider that relays the words of the language check\<close>

lemma make_url_hello_fr:
  "make_url env (lit ''hello'') (JStr (lit ''en'')) (JStr (lit ''fr'')) = url_hello_en_fr"
  by (simp add: make_url_def base_url_def url_hello_en_fr_def lit_def)

text \<open>
  The claim C2 as stated, on the response alone, fails when the languages differ and the
  provider reports a failure whose \<open>responseDetails\<close> are the words of the language
  check: \<open>translate_text\<close> relays them in the same envelope, after a request to the
  provider.
\<close>

theorem relayed_details_counterexample:
  "\<not> py_eq (JStr (lit ''en'')) (JStr (lit ''fr''))
   \<and> translate (env_answering 200 (lit ''OK'') (Inr payload_same_words))
         (req_of (body_hello ''en'' ''fr'')) [] =
       (Inr (jsonify (failure
          (JStr (lit ''Source and target languages cannot be the same'')))),
        [url_hello_en_fr])"
proof -
  let ?env = "env_answering 200 (lit ''OK'') (Inr payload_same_words)"
  let ?resp = "\<lparr>status_code = 200, reason = lit ''OK'', url = url_hello_en_fr,
                 json_result = Inr payload_same_words\<rparr>"
  note u = make_url_hello_fr
  have h2: "provider ?env (make_url ?env (lit ''hello'') (JStr (lit ''en'')) (JStr (lit ''fr'')))
            = Inr ?resp"
    by (simp add: u) (simp add: env_answering_def)
  have h3: "raise_for_status ?resp = Inr ()"
    by (simp add: raise_for_status_def)
  have ne: "\<not> py_eq (JInt 403) (JInt 200)"
    by (simp add: py_eq.simps(1))
  have "translate_text_try ?env (lit ''hello'') (JStr (lit ''en'')) (JStr (lit ''fr'')) [] =
          (Inr (failure (JStr (lit ''Source and target languages cannot be the same''))),
           [url_hello_en_fr])"
    using translate_text_after_get [OF quote_hello h2 h3, of "[]"] ne
    by (simp add: bind_def u payload_same_words_def lit_eq_iff)
  then have t: "translate_text ?env (lit ''hello'') (JStr (lit ''en'')) (JStr (lit ''fr'')) [] =
          (Inr (failure (JStr (lit ''Source and target languages cannot be the same''))),
           [url_hello_en_fr])"
    by (simp add: translate_text_def try_except_def)
  have d: "\<not> py_eq (JStr (lit ''en'')) (JStr (lit ''fr''))"
    by (simp add: lit_eq_iff)
  have "translate ?env (req_of (body_hello ''en'' ''fr'')) [] =
          io_bind (translate_text ?env (strip (lit ''hello'')) (JStr (lit ''en''))
                     (JStr (lit ''fr'')))
            (\<lambda>result. return (jsonify result)) []"
    using translate_on_text [OF body_hello_facts [of "''en''" "''fr''"], of ?env "[]"] d
    by (simp add: strip_hello) (simp add: lit_def)
  with t d show ?thesis
    by (simp add: strip_hello io_bind_def return_def)
qed

end
